theory Spec2Isabelle
  imports Complex_Main
begin

section \<open>The heat-map generator of wifi-survey-heatmap\<close>

text \<open>
  A shallow embedding of \<^verbatim>\<open>wifi_survey_heatmap/heatmap.py\<close>: the class
  \<^verbatim>\<open>HeatMapGenerator\<close> with its constructor and the methods \<^verbatim>\<open>generate\<close>,
  \<^verbatim>\<open>_plot_channels\<close> and \<^verbatim>\<open>_plot\<close>.

  Conventions of the embedding.
  \<^item> Numbers read from the JSON survey file, pixel coordinates and the values computed
    from them are rationals (\<^typ>\<open>rat\<close>). Python's \<^verbatim>\<open>/\<close> is the true division of
    Python 3. Where a quotient decides a count (the number of grid rows and columns) it
    is rounded to a double as Python does; elsewhere (means, grid coordinates, colour
    intensities) it is exact, which differs from the program in the last bits of a
    value only. NaN, infinity, overflow and underflow are outside the model.
  \<^item> A raised exception is the left summand of \<open>error + 'a\<close>.
  \<^item> A leading underscore of a Python name is dropped (\<^verbatim>\<open>_plot\<close> is \<open>plot\<close>).
  \<^item> The survey records are typed: a record that lacks a key (a \<^verbatim>\<open>KeyError\<close>) is not
    representable.
  \<^item> Calls into the logging module are left out; \<^verbatim>\<open>print\<close> is kept as an output list.
\<close>

subsection \<open>Exceptions and built-ins of Python\<close>

datatype error =
    ValueError
  | IndexError
  | ZeroDivisionError
  | NotImplementedError
  | LinAlgError

text \<open>
  \<^verbatim>\<open>min(xs)\<close> and \<^verbatim>\<open>max(xs)\<close> on a list: \<^verbatim>\<open>ValueError\<close> on the empty list; otherwise
  the first element is kept until a strictly smaller (larger) one is met.
\<close>

fun py_min :: "'a::linorder list \<Rightarrow> error + 'a" where
  "py_min [] = Inl ValueError"
| "py_min (v # vs) = Inr (foldl (\<lambda>m x. if x < m then x else m) v vs)"

fun py_max :: "'a::linorder list \<Rightarrow> error + 'a" where
  "py_max [] = Inl ValueError"
| "py_max (v # vs) = Inr (foldl (\<lambda>m x. if m < x then x else m) v vs)"

text \<open>
  True division \<^verbatim>\<open>a / b\<close> without rounding, which raises on a zero divisor (used for the
  channel means).
\<close>

definition py_truediv :: "rat \<Rightarrow> rat \<Rightarrow> error + rat" where
  "py_truediv a b = (if b = 0 then Inl ZeroDivisionError else Inr (a / b))"

text \<open>\<^verbatim>\<open>int(q)\<close> truncates towards zero.\<close>

definition py_int :: "rat \<Rightarrow> int" where
  "py_int q = (if 0 \<le> q then \<lfloor>q\<rfloor> else \<lceil>q\<rceil>)"

subsection \<open>Double precision\<close>

text \<open>
  A double is a rational \<open>m * 2 ^ e\<close> with an integer \<open>m\<close> of at most 53 bits. \<open>double q\<close>
  is the double nearest to \<open>q\<close>, ties going to the even significand (the rounding of an
  IEEE division); the exponent range is not bounded. \<open>ilog2 n\<close> is the position of the
  leading bit of \<open>n\<close>, \<open>exponent q\<close> the \<open>e\<close> with \<open>2 ^ e \<le> q < 2 ^ (e + 1)\<close> for a positive
  \<open>q\<close>, and \<open>ulp q\<close> the distance between neighbouring doubles at \<open>q\<close>.
\<close>

fun ilog2 :: "nat \<Rightarrow> nat" where
  "ilog2 n = (if n < 2 then 0 else Suc (ilog2 (n div 2)))"

declare ilog2.simps [simp del]

definition exponent :: "rat \<Rightarrow> int" where
  "exponent q =
     (if 1 \<le> q then int (ilog2 (nat \<lfloor>q\<rfloor>))
      else - int (Suc (ilog2 (nat (\<lceil>1 / q\<rceil> - 1)))))"

definition round_half_even :: "rat \<Rightarrow> int" where
  "round_half_even x =
     (let f = \<lfloor>x\<rfloor>; d = x - of_int f
      in if d < 1 / 2 then f else if 1 / 2 < d then f + 1 else if even f then f else f + 1)"

definition ulp :: "rat \<Rightarrow> rat" where
  "ulp q = 2 powi (exponent q - 52)"

definition double :: "rat \<Rightarrow> rat" where
  "double q =
     (if q = 0 then 0
      else if q < 0 then - (of_int (round_half_even (- q / ulp (- q))) * ulp (- q))
      else of_int (round_half_even (q / ulp q)) * ulp q)"

text \<open>
  \<^verbatim>\<open>a / b\<close> for two Python integers is the correctly rounded quotient; \<^verbatim>\<open>x / y\<close> for
  two floats is the IEEE division. An integer operand of a float division is converted
  first (\<open>double (of_int n)\<close>). Both raise on a zero divisor.
\<close>

definition int_truediv :: "int \<Rightarrow> int \<Rightarrow> error + rat" where
  "int_truediv a b =
     (if b = 0 then Inl ZeroDivisionError else Inr (double (of_int a / of_int b)))"

definition float_truediv :: "rat \<Rightarrow> rat \<Rightarrow> error + rat" where
  "float_truediv x y = (if y = 0 then Inl ZeroDivisionError else Inr (double (x / y)))"

subsection \<open>\<^verbatim>\<open>defaultdict(list)\<close>\<close>

text \<open>
  A \<^verbatim>\<open>defaultdict(list)\<close> is an association list in insertion order with distinct keys.
  \<open>dd_append k v a\<close> is \<^verbatim>\<open>a[k].append(v)\<close>: a missing key is created with the empty
  list first. \<open>dd_get a k\<close> is the read \<^verbatim>\<open>a[k]\<close>, the empty list for a missing key (the
  insertion of that empty list by the read has no effect on anything computed here).
\<close>

fun dd_append :: "'k \<Rightarrow> 'v \<Rightarrow> ('k \<times> 'v list) list \<Rightarrow> ('k \<times> 'v list) list" where
  "dd_append k v [] = [(k, [v])]"
| "dd_append k v ((k', vs) # a) =
     (if k = k' then (k', vs @ [v]) # a else (k', vs) # dd_append k v a)"

definition dd_get :: "('k \<times> 'v list) list \<Rightarrow> 'k \<Rightarrow> 'v list" where
  "dd_get a k = (case map_of a k of None \<Rightarrow> [] | Some vs \<Rightarrow> vs)"

subsection \<open>The survey data and the generator object\<close>

text \<open>One entry of \<^verbatim>\<open>row['result']['iwscan']\<close>; \<open>stats_quality\<close> is \<^verbatim>\<open>scan['stats']['quality']\<close>.\<close>

record scan =
  ESSID :: string
  Frequency :: rat
  stats_quality :: rat

text \<open>
  One element of the JSON list. The fields below \<^verbatim>\<open>row['result']\<close> are named by their
  path: \<open>iwconfig_stats_level\<close> is \<^verbatim>\<open>row['result']['iwconfig']['stats']['level']\<close>,
  \<open>tcp_reverse_received_Mbps\<close> is \<^verbatim>\<open>row['result']['tcp-reverse']['received_Mbps']\<close>.
\<close>

record row =
  row_x :: rat
  row_y :: rat
  iwconfig_stats_level :: rat
  iwconfig_stats_quality :: rat
  tcp_sent_Mbps :: rat
  tcp_reverse_received_Mbps :: rat
  udp_Mbps :: rat
  udp_jitter_ms :: rat
  iwscan :: "scan list"

text \<open>The attributes of a \<^verbatim>\<open>HeatMapGenerator\<close>; \<open>'p\<close> is the type of a pixel.\<close>

record 'p HeatMapGenerator =
  image_path :: string
  title :: string
  ignore_ssids :: "string list"
  layout :: "'p list list"
  image_width :: int
  image_height :: int
  data :: "row list"

text \<open>
  \<^verbatim>\<open>__init__\<close>. The two reads of the file system are arguments: \<open>img\<close> is what
  \<^verbatim>\<open>imread(image_path)\<close> returns (the pixel rows, top to bottom) and \<open>js\<close> is what
  \<^verbatim>\<open>json.loads\<close> returns for \<^verbatim>\<open>TITLE.json\<close>. \<^verbatim>\<open>self._layout[0]\<close> raises on an image
  without rows.
\<close>

definition init ::
  "'p list list \<Rightarrow> row list \<Rightarrow> string \<Rightarrow> string \<Rightarrow> string list \<Rightarrow> error + 'p HeatMapGenerator"
where
  "init img js path ttl ignore =
     (case img of
        [] \<Rightarrow> Inl IndexError
      | r0 # _ \<Rightarrow>
          Inr \<lparr>image_path = path, title = ttl, ignore_ssids = ignore, layout = img,
               image_width = int (length r0),
               image_height = int (length img) - 1,
               data = js\<rparr>)"

subsection \<open>\<^verbatim>\<open>generate\<close>, first part: the per-metric columns and the corner padding\<close>

type_synonym table = "(string \<times> rat list) list"

text \<open>The body of the loop over \<^verbatim>\<open>self._data\<close>: eight appends, in the order of the source.\<close>

definition add_row :: "row \<Rightarrow> table \<Rightarrow> table" where
  "add_row r a =
     dd_append ''jitter'' (udp_jitter_ms r)
      (dd_append ''udp_Mbps'' (udp_Mbps r)
        (dd_append ''tcp_download_Mbps'' (tcp_reverse_received_Mbps r)
          (dd_append ''tcp_upload_Mbps'' (tcp_sent_Mbps r)
            (dd_append ''quality'' (iwconfig_stats_quality r)
              (dd_append ''rssi'' (iwconfig_stats_level r)
                (dd_append ''y'' (row_y r)
                  (dd_append ''x'' (row_x r) a)))))))"

text \<open>
  The inner loop \<^verbatim>\<open>for k in a.keys()\<close> of the padding: every key but \<^verbatim>\<open>'x'\<close> and \<^verbatim>\<open>'y'\<close>
  gets \<^verbatim>\<open>min(a[k])\<close> appended, the minimum of the column as it is at that moment.
\<close>

fun pad_keys :: "string list \<Rightarrow> table \<Rightarrow> error + table" where
  "pad_keys [] a = Inr a"
| "pad_keys (k # ks) a =
     (if k \<in> set [''x'', ''y''] then pad_keys ks a
      else case py_min (dd_get a k) of
             Inl e \<Rightarrow> Inl e
           | Inr m \<Rightarrow> pad_keys ks (dd_append k m a))"

text \<open>The outer loop over the four corners.\<close>

fun pad_corners :: "(rat \<times> rat) list \<Rightarrow> table \<Rightarrow> error + table" where
  "pad_corners [] a = Inr a"
| "pad_corners ((cx, cy) # cs) a =
     (let a1 = dd_append ''y'' cy (dd_append ''x'' cx a)
      in case pad_keys (map fst a1) a1 of
           Inl e \<Rightarrow> Inl e
         | Inr a2 \<Rightarrow> pad_corners cs a2)"

text \<open>Lines 149 to 170 of \<^verbatim>\<open>generate\<close>: the table \<^verbatim>\<open>a\<close> handed to the plots.\<close>

definition aggregate :: "'p HeatMapGenerator \<Rightarrow> error + table" where
  "aggregate g =
     (let W = of_int (image_width g); H = of_int (image_height g)
      in pad_corners [(0, 0), (0, H), (W, 0), (W, H)]
           (foldl (\<lambda>a r. add_row r a) [] (data g)))"

subsection \<open>\<^verbatim>\<open>_plot_channels\<close>\<close>

type_synonym channels = "(rat \<times> rat) list"

text \<open>
  The first loop: every scan whose ESSID is not ignored adds its quality to the bucket of
  its frequency divided by \<^verbatim>\<open>1000000\<close>.
\<close>

definition channel_buckets :: "string list \<Rightarrow> row list \<Rightarrow> (rat \<times> rat list) list" where
  "channel_buckets ignore rs =
     foldl (\<lambda>ch r.
        foldl (\<lambda>ch s. if ESSID s \<in> set ignore then ch
                      else dd_append (Frequency s / 1000000) (stats_quality s) ch)
          ch (iwscan r))
       [] rs"

text \<open>
  The second loop replaces each bucket by \<^verbatim>\<open>sum(bucket) / len(bucket)\<close>, a division that
  raises when the length is zero.
\<close>

fun channel_means :: "(rat \<times> rat list) list \<Rightarrow> error + channels" where
  "channel_means [] = Inr []"
| "channel_means ((f, qs) # ch) =
     (case py_truediv (sum_list qs) (of_nat (length qs)) of
        Inl e \<Rightarrow> Inl e
      | Inr m \<Rightarrow> (case channel_means ch of
                    Inl e \<Rightarrow> Inl e
                  | Inr ms \<Rightarrow> Inr ((f, m) # ms)))"

text \<open>
  The method returns what it printed and how it ended. After \<^verbatim>\<open>print(channels)\<close> comes
  \<^verbatim>\<open>raise NotImplementedError()\<close>; the \<^verbatim>\<open>pp.close('all')\<close> behind it is dead code.
\<close>

definition plot_channels :: "'p HeatMapGenerator \<Rightarrow> channels list \<times> (error + unit)" where
  "plot_channels g =
     (case channel_means (channel_buckets (ignore_ssids g) (data g)) of
        Inl e \<Rightarrow> ([], Inl e)
      | Inr ch \<Rightarrow> ([ch], Inl NotImplementedError))"

subsection \<open>The sampling grid\<close>

text \<open>
  \<^verbatim>\<open>numpy.linspace(start, stop, num)\<close> as numpy documents it: \<^verbatim>\<open>ValueError\<close> for a negative
  \<open>num\<close>, no sample for \<open>0\<close>, the single sample \<open>start\<close> for \<open>1\<close>, and otherwise \<open>num\<close>
  samples with step \<open>(stop - start) / (num - 1)\<close>.
\<close>

definition linspace :: "rat \<Rightarrow> rat \<Rightarrow> int \<Rightarrow> error + rat list" where
  "linspace start stop num =
     (if num < 0 then Inl ValueError
      else if num = 1 then Inr [start]
      else Inr (map (\<lambda>i. start + of_nat i * ((stop - start) / of_int (num - 1)))
                  [0..<nat num]))"

record grid =
  num_x :: int
  num_y :: int
  grid_x :: "rat list"
  grid_y :: "rat list"
  gx :: "rat list"
  gy :: "rat list"

text \<open>
  Lines 172 to 177 of \<^verbatim>\<open>generate\<close>. The three divisions of
  \<^verbatim>\<open>int(W / 4)\<close> and \<^verbatim>\<open>int(num_x / (W / H))\<close> are rounded to doubles before \<^verbatim>\<open>int\<close>
  truncates. \<open>grid_x\<close> and \<open>grid_y\<close> are the two \<^verbatim>\<open>linspace\<close> results; \<open>gx\<close> and \<open>gy\<close>
  are the flattened \<^verbatim>\<open>meshgrid\<close> (one row of the mesh per sample of \<open>grid_y\<close>, row after
  row).
\<close>

definition make_grid :: "int \<Rightarrow> int \<Rightarrow> error + grid" where
  "make_grid W H =
     (case int_truediv W 4 of
        Inl e \<Rightarrow> Inl e
      | Inr w4 \<Rightarrow>
     (let nx = py_int w4 in
      case int_truediv W H of
        Inl e \<Rightarrow> Inl e
      | Inr ratio \<Rightarrow>
     (case float_truediv (double (of_int nx)) ratio of
        Inl e \<Rightarrow> Inl e
      | Inr q \<Rightarrow>
     (let ny = py_int q in
      case linspace 0 (of_int W) nx of
        Inl e \<Rightarrow> Inl e
      | Inr x \<Rightarrow>
     (case linspace 0 (of_int H) ny of
        Inl e \<Rightarrow> Inl e
      | Inr y \<Rightarrow>
          Inr \<lparr>num_x = nx, num_y = ny, grid_x = x, grid_y = y,
               gx = concat (replicate (length y) x),
               gy = concat (map (replicate (length x)) y)\<rparr>)))))"

text \<open>
  \<^verbatim>\<open>z.reshape((r, c))\<close> for non-negative \<open>r\<close> and \<open>c\<close>: \<^verbatim>\<open>ValueError\<close> unless the array has
  \<open>r * c\<close> elements, else \<open>r\<close> rows of \<open>c\<close> elements in row-major order. (A negative
  dimension never reaches it: \<open>linspace\<close> has raised before.)
\<close>

fun chop :: "nat \<Rightarrow> nat \<Rightarrow> 'a list \<Rightarrow> 'a list list" where
  "chop 0 c xs = []"
| "chop (Suc r) c xs = take c xs # chop r c (drop c xs)"

definition reshape :: "int \<Rightarrow> int \<Rightarrow> 'a list \<Rightarrow> error + 'a list list" where
  "reshape r c xs =
     (if 0 \<le> r \<and> 0 \<le> c \<and> int (length xs) = r * c then Inr (chop (nat r) (nat c) xs)
      else Inl ValueError)"

subsection \<open>Colour mapping\<close>

text \<open>
  \<^verbatim>\<open>matplotlib.colors.Normalize(vmin, vmax, clip=True)\<close> applied to a value, as matplotlib
  documents and implements it: \<open>0\<close> when \<open>vmin = vmax\<close>, \<^verbatim>\<open>ValueError\<close> when
  \<open>vmin > vmax\<close>, and otherwise the value clipped to \<open>[vmin, vmax]\<close> and scaled linearly.
\<close>

definition Normalize :: "rat \<Rightarrow> rat \<Rightarrow> rat \<Rightarrow> error + rat" where
  "Normalize vmin vmax v =
     (if vmin = vmax then Inr 0
      else if vmin > vmax then Inl ValueError
      else Inr ((min vmax (max v vmin) - vmin) / (vmax - vmin)))"

text \<open>
  \<^verbatim>\<open>ScalarMappable.to_rgba\<close>: normalise, then look the colour up. The palette
  \<^verbatim>\<open>'RdYlBu_r'\<close> is a table of matplotlib; it is the argument \<open>cmap\<close>.
\<close>

definition to_rgba :: "(rat \<Rightarrow> 'c) \<Rightarrow> rat \<Rightarrow> rat \<Rightarrow> rat \<Rightarrow> error + 'c" where
  "to_rgba cmap vmin vmax v =
     (case Normalize vmin vmax v of Inl e \<Rightarrow> Inl e | Inr t \<Rightarrow> Inr (cmap t))"

subsection \<open>\<^verbatim>\<open>_plot\<close>\<close>

record 'c marker =
  marker_x :: rat
  marker_y :: rat
  markerfacecolor :: 'c

text \<open>What one call of \<^verbatim>\<open>_plot\<close> has drawn when it reaches \<^verbatim>\<open>savefig\<close>.\<close>

record ('p, 'c) figure =
  fig_title :: string
  field :: "rat list list"
  extent :: "rat \<times> rat \<times> rat \<times> rat"
  background :: "'p list list"
  markers :: "'c marker list"
  fname :: string

text \<open>
  \<^verbatim>\<open>scipy.interpolate.Rbf(x, y, d, function='linear')\<close> is an argument of the model: a fit
  either raises or returns the interpolant, which is evaluated point by point.
\<close>

type_synonym rbf = "rat list \<Rightarrow> rat list \<Rightarrow> rat list \<Rightarrow> error + (rat \<Rightarrow> rat \<Rightarrow> rat)"

text \<open>
  The loop \<^verbatim>\<open>for idx in range(0, len(a['x']))\<close>: one \<^verbatim>\<open>pp.plot\<close> per index, reading
  \<^verbatim>\<open>a['x'][idx]\<close>, \<^verbatim>\<open>a['y'][idx]\<close> and \<^verbatim>\<open>a[key][idx]\<close>, each of which raises out of range.
\<close>

fun plot_points ::
  "(rat \<Rightarrow> 'c) \<Rightarrow> rat \<Rightarrow> rat \<Rightarrow> rat list \<Rightarrow> rat list \<Rightarrow> rat list \<Rightarrow> nat list
    \<Rightarrow> error + 'c marker list"
where
  "plot_points cmap vmin vmax xs ys vs [] = Inr []"
| "plot_points cmap vmin vmax xs ys vs (idx # idxs) =
     (if length xs \<le> idx \<or> length ys \<le> idx \<or> length vs \<le> idx then Inl IndexError
      else case to_rgba cmap vmin vmax (vs ! idx) of
             Inl e \<Rightarrow> Inl e
           | Inr c \<Rightarrow>
          (case plot_points cmap vmin vmax xs ys vs idxs of
             Inl e \<Rightarrow> Inl e
           | Inr ms \<Rightarrow>
               Inr (\<lparr>marker_x = xs ! idx, marker_y = ys ! idx, markerfacecolor = c\<rparr> # ms)))"

definition plot ::
  "rbf \<Rightarrow> (rat \<Rightarrow> 'c) \<Rightarrow> 'p HeatMapGenerator \<Rightarrow> table \<Rightarrow> string \<Rightarrow> string
    \<Rightarrow> rat list \<Rightarrow> rat list \<Rightarrow> int \<Rightarrow> int \<Rightarrow> error + ('p, 'c) figure"
where
  "plot Rbf cmap g a key ttl gxs gys nx ny =
     (case Rbf (dd_get a ''x'') (dd_get a ''y'') (dd_get a key) of
        Inl e \<Rightarrow> Inl e
      | Inr interp \<Rightarrow>
     (case reshape ny nx (map2 interp gxs gys) of
        Inl e \<Rightarrow> Inl e
      | Inr z \<Rightarrow>
     (case py_min (dd_get a key) of
        Inl e \<Rightarrow> Inl e
      | Inr vmin \<Rightarrow>
     (case py_max (dd_get a key) of
        Inl e \<Rightarrow> Inl e
      | Inr vmax \<Rightarrow>
     (case plot_points cmap vmin vmax (dd_get a ''x'') (dd_get a ''y'') (dd_get a key)
             [0..<length (dd_get a ''x'')] of
        Inl e \<Rightarrow> Inl e
      | Inr ms \<Rightarrow>
          Inr \<lparr>fig_title = ttl, field = z,
               extent = (0, of_int (image_width g), of_int (image_height g), 0),
               background = layout g, markers = ms,
               fname = key @ ''_'' @ title g @ ''.png''\<rparr>)))))"

subsection \<open>\<^verbatim>\<open>generate\<close>\<close>

definition metrics :: "(string \<times> string) list" where
  "metrics =
     [(''rssi'', ''RSSI (level)''),
      (''quality'', ''iwstats Quality''),
      (''tcp_upload_Mbps'', ''TCP Upload Mbps''),
      (''tcp_download_Mbps'', ''TCP Download Mbps''),
      (''udp_Mbps'', ''UDP Upload Mbps''),
      (''jitter'', ''UDP Jitter (ms)'')]"

text \<open>The loop over the metrics: the figures saved so far, and the first exception.\<close>

fun plot_all ::
  "rbf \<Rightarrow> (rat \<Rightarrow> 'c) \<Rightarrow> 'p HeatMapGenerator \<Rightarrow> table \<Rightarrow> grid \<Rightarrow> (string \<times> string) list
    \<Rightarrow> ('p, 'c) figure list \<times> (error + unit)"
where
  "plot_all Rbf cmap g a gr [] = ([], Inr ())"
| "plot_all Rbf cmap g a gr ((k, ptitle) # ms) =
     (case plot Rbf cmap g a k (title g @ '' - '' @ ptitle) (gx gr) (gy gr)
             (num_x gr) (num_y gr) of
        Inl e \<Rightarrow> ([], Inl e)
      | Inr fig \<Rightarrow>
          (case plot_all Rbf cmap g a gr ms of (figs, r) \<Rightarrow> (fig # figs, r)))"

text \<open>
  The result of a run: what was printed, the figures written, and the exception that
  ended it (or \<open>Inr ()\<close> for a normal return).
\<close>

definition generate ::
  "rbf \<Rightarrow> (rat \<Rightarrow> 'c) \<Rightarrow> 'p HeatMapGenerator
    \<Rightarrow> channels list \<times> ('p, 'c) figure list \<times> (error + unit)"
where
  "generate Rbf cmap g =
     (case aggregate g of
        Inl e \<Rightarrow> ([], [], Inl e)
      | Inr a \<Rightarrow>
     (case plot_channels g of
        (out, Inl e) \<Rightarrow> (out, [], Inl e)
      | (out, Inr _) \<Rightarrow>
     (case make_grid (image_width g) (image_height g) of
        Inl e \<Rightarrow> (out, [], Inl e)
      | Inr gr \<Rightarrow>
          (case plot_all Rbf cmap g a gr metrics of (figs, r) \<Rightarrow> (out, figs, r)))))"

subsection \<open>Notions used to state the properties\<close>

text \<open>The table \<^verbatim>\<open>a\<close> once every record has all its metrics: eight columns in this order.\<close>

definition columns ::
  "rat list \<Rightarrow> rat list \<Rightarrow> rat list \<Rightarrow> rat list \<Rightarrow> rat list \<Rightarrow> rat list \<Rightarrow> rat list \<Rightarrow> rat list
    \<Rightarrow> table"
where
  "columns xs ys r q tu td u j =
     [(''x'', xs), (''y'', ys), (''rssi'', r), (''quality'', q),
      (''tcp_upload_Mbps'', tu), (''tcp_download_Mbps'', td),
      (''udp_Mbps'', u), (''jitter'', j)]"

text \<open>The scans of the whole dataset that are not excluded, in the order they are visited.\<close>

definition observations :: "string list \<Rightarrow> row list \<Rightarrow> scan list" where
  "observations ignore rs = filter (\<lambda>s. ESSID s \<notin> set ignore) (concat (map iwscan rs))"

text \<open>The key under which a scan is bucketed.\<close>

definition bucket_key :: "scan \<Rightarrow> rat" where
  "bucket_key s = Frequency s / 1000000"

definition mean :: "rat list \<Rightarrow> rat" where
  "mean qs = sum_list qs / of_nat (length qs)"

text \<open>The measured value of a record for a key of the metric catalogue.\<close>

definition metric_value :: "string \<Rightarrow> row \<Rightarrow> rat" where
  "metric_value key r =
     (if key = ''rssi'' then iwconfig_stats_level r
      else if key = ''quality'' then iwconfig_stats_quality r
      else if key = ''tcp_upload_Mbps'' then tcp_sent_Mbps r
      else if key = ''tcp_download_Mbps'' then tcp_reverse_received_Mbps r
      else if key = ''udp_Mbps'' then udp_Mbps r
      else udp_jitter_ms r)"

subsection \<open>A small survey\<close>

text \<open>
  Two measurement points on a plan of 16 by 9 pixels. Each point saw one network on
  2412 MHz, with qualities 50 and 70.
\<close>

definition point_a :: row where
  "point_a =
     \<lparr>row_x = 1, row_y = 2, iwconfig_stats_level = - 50, iwconfig_stats_quality = 60,
      tcp_sent_Mbps = 10, tcp_reverse_received_Mbps = 20, udp_Mbps = 5, udp_jitter_ms = 1 / 2,
      iwscan = [\<lparr>ESSID = ''home'', Frequency = 2412000000, stats_quality = 50\<rparr>]\<rparr>"

definition point_b :: row where
  "point_b =
     \<lparr>row_x = 3, row_y = 1, iwconfig_stats_level = - 70, iwconfig_stats_quality = 40,
      tcp_sent_Mbps = 12, tcp_reverse_received_Mbps = 18, udp_Mbps = 6, udp_jitter_ms = 1 / 4,
      iwscan = [\<lparr>ESSID = ''guest'', Frequency = 2412000000, stats_quality = 70\<rparr>]\<rparr>"

definition survey :: "string list \<Rightarrow> row list \<Rightarrow> nat HeatMapGenerator" where
  "survey ignore rs =
     \<lparr>image_path = ''plan.png'', title = ''survey'', ignore_ssids = ignore,
      layout = replicate 9 (replicate 16 0), image_width = 16, image_height = 8,
      data = rs\<rparr>"

text \<open>
  A stand-in for the interpolation library in the examples: the fit succeeds and the
  interpolant is zero everywhere.
\<close>

definition flat_rbf :: rbf where
  "flat_rbf xs ys ds = Inr (\<lambda>x y. 0)"

text \<open>The table, the grid and the RSSI figure of the survey with both points.\<close>

definition survey_table :: table where
  "survey_table =
     [(''x'', [1, 3, 0, 0, 16, 16]),
      (''y'', [2, 1, 0, 8, 0, 8]),
      (''rssi'', [- 50, - 70, - 70, - 70, - 70, - 70]),
      (''quality'', [60, 40, 40, 40, 40, 40]),
      (''tcp_upload_Mbps'', [10, 12, 10, 10, 10, 10]),
      (''tcp_download_Mbps'', [20, 18, 18, 18, 18, 18]),
      (''udp_Mbps'', [5, 6, 5, 5, 5, 5]),
      (''jitter'', [1 / 2, 1 / 4, 1 / 4, 1 / 4, 1 / 4, 1 / 4])]"

definition survey_grid :: grid where
  "survey_grid =
     \<lparr>num_x = 4, num_y = 2, grid_x = [0, 16 / 3, 32 / 3, 16], grid_y = [0, 8],
      gx = [0, 16 / 3, 32 / 3, 16, 0, 16 / 3, 32 / 3, 16],
      gy = [0, 0, 0, 0, 8, 8, 8, 8]\<rparr>"

definition survey_figure :: "(nat, rat) figure" where
  "survey_figure =
     \<lparr>fig_title = ''survey - RSSI (level)'',
      field = [[0, 0, 0, 0], [0, 0, 0, 0]],
      extent = (0, 16, 8, 0),
      background = replicate 9 (replicate 16 0),
      markers =
        [\<lparr>marker_x = 1, marker_y = 2, markerfacecolor = 1\<rparr>,
         \<lparr>marker_x = 3, marker_y = 1, markerfacecolor = 0\<rparr>,
         \<lparr>marker_x = 0, marker_y = 0, markerfacecolor = 0\<rparr>,
         \<lparr>marker_x = 0, marker_y = 8, markerfacecolor = 0\<rparr>,
         \<lparr>marker_x = 16, marker_y = 0, markerfacecolor = 0\<rparr>,
         \<lparr>marker_x = 16, marker_y = 8, markerfacecolor = 0\<rparr>],
      fname = ''rssi_survey.png''\<rparr>"

text \<open>
  The survey with the first point alone: every metric has a single measured value, so
  every padded column is constant.
\<close>

definition single_table :: table where
  "single_table =
     [(''x'', [1, 0, 0, 16, 16]),
      (''y'', [2, 0, 8, 0, 8]),
      (''rssi'', [- 50, - 50, - 50, - 50, - 50]),
      (''quality'', [60, 60, 60, 60, 60]),
      (''tcp_upload_Mbps'', [10, 10, 10, 10, 10]),
      (''tcp_download_Mbps'', [20, 20, 20, 20, 20]),
      (''udp_Mbps'', [5, 5, 5, 5, 5]),
      (''jitter'', [1 / 2, 1 / 2, 1 / 2, 1 / 2, 1 / 2])]"

definition single_figure :: "(nat, rat) figure" where
  "single_figure =
     \<lparr>fig_title = ''survey - RSSI (level)'',
      field = [[0, 0, 0, 0], [0, 0, 0, 0]],
      extent = (0, 16, 8, 0),
      background = replicate 9 (replicate 16 0),
      markers =
        [\<lparr>marker_x = 1, marker_y = 2, markerfacecolor = 0\<rparr>,
         \<lparr>marker_x = 0, marker_y = 0, markerfacecolor = 0\<rparr>,
         \<lparr>marker_x = 0, marker_y = 8, markerfacecolor = 0\<rparr>,
         \<lparr>marker_x = 16, marker_y = 0, markerfacecolor = 0\<rparr>,
         \<lparr>marker_x = 16, marker_y = 8, markerfacecolor = 0\<rparr>],
      fname = ''rssi_survey.png''\<rparr>"

section \<open>Properties\<close>

subsection \<open>Rounding to doubles\<close>












subsection \<open>\<^verbatim>\<open>min\<close> and \<^verbatim>\<open>max\<close>\<close>

lemma foldl_min: "foldl (\<lambda>m x. if x < m then x else m) v vs = Min (set (v # vs))"
proof -
  have "foldl (\<lambda>m x. if x < m then x else m) v vs = fold min vs v"
    by (induction vs arbitrary: v) (auto simp: min_def)
  then show ?thesis by (simp only: Min.set_eq_fold)
qed

lemma foldl_max: "foldl (\<lambda>m x. if m < x then x else m) v vs = Max (set (v # vs))"
proof -
  have "foldl (\<lambda>m x. if m < x then x else m) v vs = fold max vs v"
    by (induction vs arbitrary: v) (auto simp: max_def)
  then show ?thesis by (simp only: Max.set_eq_fold)
qed

lemma py_min_eq: "xs \<noteq> [] \<Longrightarrow> py_min xs = Inr (Min (set xs))"
  by (cases xs) (simp_all add: foldl_min del: set_simps)

lemma py_max_eq: "xs \<noteq> [] \<Longrightarrow> py_max xs = Inr (Max (set xs))"
  by (cases xs) (simp_all add: foldl_max del: set_simps)

lemma Min_snoc_Min: "xs \<noteq> [] \<Longrightarrow> Min (set (xs @ [Min (set xs)])) = Min (set xs)"
  by (simp add: min_def)

lemma replicate_4: "replicate 4 v = [v, v, v, v]"
  by (simp add: numeral_eq_Suc)

subsection \<open>The table of columns\<close>

lemma add_row_empty:
  "add_row r [] =
     columns [row_x r] [row_y r] [iwconfig_stats_level r] [iwconfig_stats_quality r]
       [tcp_sent_Mbps r] [tcp_reverse_received_Mbps r] [udp_Mbps r] [udp_jitter_ms r]"
  by (simp add: add_row_def columns_def)

lemma add_row_columns:
  "add_row r (columns xs ys rs q tu td u j) =
     columns (xs @ [row_x r]) (ys @ [row_y r]) (rs @ [iwconfig_stats_level r])
       (q @ [iwconfig_stats_quality r]) (tu @ [tcp_sent_Mbps r])
       (td @ [tcp_reverse_received_Mbps r]) (u @ [udp_Mbps r]) (j @ [udp_jitter_ms r])"
  by (simp add: add_row_def columns_def)

lemma foldl_add_row_columns:
  "foldl (\<lambda>a r. add_row r a) (columns xs ys rs q tu td u j) rows =
     columns (xs @ map row_x rows) (ys @ map row_y rows)
       (rs @ map iwconfig_stats_level rows) (q @ map iwconfig_stats_quality rows)
       (tu @ map tcp_sent_Mbps rows) (td @ map tcp_reverse_received_Mbps rows)
       (u @ map udp_Mbps rows) (j @ map udp_jitter_ms rows)"
  by (induction rows arbitrary: xs ys rs q tu td u j) (simp_all add: add_row_columns)

lemma collect_nonempty:
  "rows \<noteq> [] \<Longrightarrow>
   foldl (\<lambda>a r. add_row r a) [] rows =
     columns (map row_x rows) (map row_y rows) (map iwconfig_stats_level rows)
       (map iwconfig_stats_quality rows) (map tcp_sent_Mbps rows)
       (map tcp_reverse_received_Mbps rows) (map udp_Mbps rows) (map udp_jitter_ms rows)"
  by (cases rows) (simp_all add: add_row_empty foldl_add_row_columns)

lemma pad_keys_columns:
  assumes "rs \<noteq> []" "q \<noteq> []" "tu \<noteq> []" "td \<noteq> []" "u \<noteq> []" "j \<noteq> []"
  shows "pad_keys (map fst (columns xs ys rs q tu td u j)) (columns xs ys rs q tu td u j) =
     Inr (columns xs ys (rs @ [Min (set rs)]) (q @ [Min (set q)]) (tu @ [Min (set tu)])
       (td @ [Min (set td)]) (u @ [Min (set u)]) (j @ [Min (set j)]))"
  using assms by (simp add: columns_def dd_get_def py_min_eq)

lemma pad_corner_columns:
  assumes "rs \<noteq> []" "q \<noteq> []" "tu \<noteq> []" "td \<noteq> []" "u \<noteq> []" "j \<noteq> []"
  shows "pad_corners (c # cs) (columns xs ys rs q tu td u j) =
     pad_corners cs (columns (xs @ [fst c]) (ys @ [snd c]) (rs @ [Min (set rs)])
       (q @ [Min (set q)]) (tu @ [Min (set tu)]) (td @ [Min (set td)])
       (u @ [Min (set u)]) (j @ [Min (set j)]))"
proof -
  have "dd_append ''y'' (snd c) (dd_append ''x'' (fst c) (columns xs ys rs q tu td u j))
      = columns (xs @ [fst c]) (ys @ [snd c]) rs q tu td u j"
    by (simp add: columns_def)
  then show ?thesis
    using pad_keys_columns[OF assms, of "xs @ [fst c]" "ys @ [snd c]"]
    by (cases c) simp
qed

lemma pad_corners_columns:
  assumes "rs \<noteq> []" "q \<noteq> []" "tu \<noteq> []" "td \<noteq> []" "u \<noteq> []" "j \<noteq> []"
  shows "pad_corners cs (columns xs ys rs q tu td u j) =
     Inr (columns (xs @ map fst cs) (ys @ map snd cs)
       (rs @ replicate (length cs) (Min (set rs))) (q @ replicate (length cs) (Min (set q)))
       (tu @ replicate (length cs) (Min (set tu))) (td @ replicate (length cs) (Min (set td)))
       (u @ replicate (length cs) (Min (set u))) (j @ replicate (length cs) (Min (set j))))"
  using assms
proof (induction cs arbitrary: xs ys rs q tu td u j)
  case Nil
  show ?case by simp
next
  case (Cons c cs)
  show ?case
    using Cons.prems
    by (simp only: pad_corner_columns[OF Cons.prems])
       (simp add: Cons.IH Min_snoc_Min replicate_append_same del: set_append)
qed

lemma aggregate_nonempty:
  assumes "data g \<noteq> []"
  shows "aggregate g = Inr (columns
      (map row_x (data g) @ [0, 0, of_int (image_width g), of_int (image_width g)])
      (map row_y (data g) @ [0, of_int (image_height g), 0, of_int (image_height g)])
      (map iwconfig_stats_level (data g)
         @ replicate 4 (Min (set (map iwconfig_stats_level (data g)))))
      (map iwconfig_stats_quality (data g)
         @ replicate 4 (Min (set (map iwconfig_stats_quality (data g)))))
      (map tcp_sent_Mbps (data g) @ replicate 4 (Min (set (map tcp_sent_Mbps (data g)))))
      (map tcp_reverse_received_Mbps (data g)
         @ replicate 4 (Min (set (map tcp_reverse_received_Mbps (data g)))))
      (map udp_Mbps (data g) @ replicate 4 (Min (set (map udp_Mbps (data g)))))
      (map udp_jitter_ms (data g) @ replicate 4 (Min (set (map udp_jitter_ms (data g))))))"
  using assms
  by (simp add: aggregate_def Let_def collect_nonempty pad_corners_columns replicate_4
        del: pad_corners.simps)

lemma aggregate_empty:
  assumes "data g = []"
  shows "aggregate g =
     Inr [(''x'', [0, 0, of_int (image_width g), of_int (image_width g)]),
          (''y'', [0, of_int (image_height g), 0, of_int (image_height g)])]"
  using assms by (simp add: aggregate_def Let_def)

lemma aggregate_ok: "\<exists>a. aggregate g = Inr a"
  by (cases "data g = []") (simp_all add: aggregate_empty aggregate_nonempty)

subsection \<open>The channel buckets\<close>

lemma dd_get_dd_append:
  "dd_get (dd_append k v a) k' = (if k' = k then dd_get a k @ [v] else dd_get a k')"
  by (induction a) (auto simp: dd_get_def)

lemma keys_dd_append: "fst ` set (dd_append k v a) = insert k (fst ` set a)"
proof (induction a)
  case Nil
  show ?case by simp
next
  case (Cons p a)
  obtain k' vs where p: "p = (k', vs)" by (cases p)
  show ?case using Cons.IH by (auto simp: p)
qed

lemma distinct_dd_append: "distinct (map fst a) \<Longrightarrow> distinct (map fst (dd_append k v a))"
proof (induction a)
  case Nil
  show ?case by simp
next
  case (Cons p a)
  obtain k' vs where p: "p = (k', vs)" by (cases p)
  show ?case using Cons by (auto simp: p keys_dd_append)
qed

lemma nonempty_dd_append:
  "\<forall>p \<in> set a. snd p \<noteq> [] \<Longrightarrow> \<forall>p \<in> set (dd_append k v a). snd p \<noteq> []"
proof (induction a)
  case Nil
  show ?case by simp
next
  case (Cons p a)
  then show ?case by (cases p) (simp add: Cons.IH)
qed

lemma foldl_skip:
  "foldl (\<lambda>ch s. if P s then ch else f s ch) ch xs =
     foldl (\<lambda>ch s. f s ch) ch (filter (\<lambda>s. \<not> P s) xs)"
  by (induction xs arbitrary: ch) simp_all

lemma foldl_nested:
  "foldl (\<lambda>ch r. foldl h ch (sel r)) ch rs = foldl h ch (concat (map sel rs))"
  by (induction rs arbitrary: ch) simp_all

lemma channel_buckets_flat:
  "channel_buckets ignore rs =
     foldl (\<lambda>ch s. dd_append (bucket_key s) (stats_quality s) ch) [] (observations ignore rs)"
  unfolding channel_buckets_def observations_def bucket_key_def
  by (simp only: foldl_skip foldl_nested filter_concat map_map o_def)

lemma buckets_get:
  "dd_get (foldl (\<lambda>ch s. dd_append (key s) (val s) ch) ch xs) k =
     dd_get ch k @ map val (filter (\<lambda>s. key s = k) xs)"
  by (induction xs arbitrary: ch) (auto simp: dd_get_dd_append)

lemma buckets_keys:
  "fst ` set (foldl (\<lambda>ch s. dd_append (key s) (val s) ch) ch xs) = fst ` set ch \<union> key ` set xs"
  by (induction xs arbitrary: ch) (auto simp: keys_dd_append)

lemma buckets_distinct:
  "distinct (map fst ch) \<Longrightarrow>
     distinct (map fst (foldl (\<lambda>ch s. dd_append (key s) (val s) ch) ch xs))"
  by (induction xs arbitrary: ch) (auto simp: distinct_dd_append)

lemma buckets_nonempty:
  "\<forall>p \<in> set ch. snd p \<noteq> [] \<Longrightarrow>
     \<forall>p \<in> set (foldl (\<lambda>ch s. dd_append (key s) (val s) ch) ch xs). snd p \<noteq> []"
proof (induction xs arbitrary: ch)
  case Nil
  then show ?case by simp
next
  case (Cons s xs)
  have "\<forall>p \<in> set (dd_append (key s) (val s) ch). snd p \<noteq> []"
    using Cons.prems by (rule nonempty_dd_append)
  then show ?case using Cons.IH by simp
qed

lemma channel_means_nonempty:
  "\<forall>p \<in> set ch. snd p \<noteq> [] \<Longrightarrow> channel_means ch = Inr (map (\<lambda>(f, qs). (f, mean qs)) ch)"
  by (induction ch) (auto simp: py_truediv_def mean_def)

lemma channel_means_buckets:
  "channel_means (channel_buckets ignore rs) =
     Inr (map (\<lambda>(f, qs). (f, mean qs)) (channel_buckets ignore rs))"
proof (rule channel_means_nonempty)
  have "\<forall>p \<in> set ([] :: (rat \<times> rat list) list). snd p \<noteq> []" by simp
  then show "\<forall>p \<in> set (channel_buckets ignore rs). snd p \<noteq> []"
    unfolding channel_buckets_flat by (rule buckets_nonempty)
qed

lemma plot_channels_eq:
  "plot_channels g =
     ([map (\<lambda>(f, qs). (f, mean qs)) (channel_buckets (ignore_ssids g) (data g))],
      Inl NotImplementedError)"
  by (simp add: plot_channels_def channel_means_buckets)

lemma generate_eq:
  "generate Rbf cmap g =
     ([map (\<lambda>(f, qs). (f, mean qs)) (channel_buckets (ignore_ssids g) (data g))], [],
      Inl NotImplementedError)"
proof -
  obtain a where "aggregate g = Inr a" using aggregate_ok by blast
  then show ?thesis by (simp add: generate_def plot_channels_eq)
qed

lemma map_of_means:
  "map_of (map (\<lambda>(f, qs). (f, mean qs)) ch) k = map_option mean (map_of ch k)"
  by (induction ch) auto

lemma map_of_dd_get: "k \<in> fst ` set a \<Longrightarrow> map_of a k = Some (dd_get a k)"
  by (auto simp: dd_get_def map_of_eq_None_iff split: option.splits)

lemma survey_simps:
  "data (survey ignore rs) = rs" "ignore_ssids (survey ignore rs) = ignore"
  "image_width (survey ignore rs) = 16" "image_height (survey ignore rs) = 8"
  by (simp_all add: survey_def)

text \<open>The example generator is what the constructor builds for a plan of 9 rows of 16 pixels.\<close>

lemma survey_init:
  "init (replicate 9 (replicate 16 0)) rs ''plan.png'' ''survey'' ignore = Inr (survey ignore rs)"
  by (simp add: init_def survey_def numeral_eq_Suc)

lemma init_dimensions:
  "init img js path ttl ignore = Inr g \<Longrightarrow>
     image_width g = int (length (hd img)) \<and> image_height g = int (length img) - 1"
  by (auto simp: init_def split: list.splits)

subsection \<open>Normalisation\<close>

lemma Normalize_scaled:
  "lo < hi \<Longrightarrow> Normalize lo hi v =
     Inr (if v < lo then 0 else if hi < v then 1 else (v - lo) / (hi - lo))"
  by (auto simp: Normalize_def min_def max_def)

lemma Normalize_range:
  assumes "lo < hi"
  shows "\<exists>t. Normalize lo hi v = Inr t \<and> 0 \<le> t \<and> t \<le> 1"
  using assms by (auto simp: Normalize_scaled)

subsection \<open>The markers of a figure\<close>

lemma plot_points_Inr:
  "plot_points cmap lo hi xs ys vs idxs = Inr ms \<Longrightarrow>
     length ms = length idxs \<and>
     (\<forall>i < length idxs.
        marker_x (ms ! i) = xs ! (idxs ! i) \<and> marker_y (ms ! i) = ys ! (idxs ! i) \<and>
        to_rgba cmap lo hi (vs ! (idxs ! i)) = Inr (markerfacecolor (ms ! i)))"
proof (induction idxs arbitrary: ms)
  case Nil
  then show ?case by simp
next
  case (Cons idx idxs)
  from Cons.prems obtain c ms' where
    c: "to_rgba cmap lo hi (vs ! idx) = Inr c" and
    ms': "plot_points cmap lo hi xs ys vs idxs = Inr ms'" and
    ms: "ms = \<lparr>marker_x = xs ! idx, marker_y = ys ! idx, markerfacecolor = c\<rparr> # ms'"
    by (auto split: if_splits sum.splits)
  from Cons.IH [OF ms'] show ?case
    by (auto simp: ms c nth_Cons split: nat.splits)
qed

lemma plot_markers:
  assumes "plot Rbf cmap g a key ttl gxs gys nx ny = Inr fig"
  shows "length (markers fig) = length (dd_get a ''x'')"
    and "\<forall>i < length (dd_get a ''x'').
           marker_x (markers fig ! i) = dd_get a ''x'' ! i \<and>
           marker_y (markers fig ! i) = dd_get a ''y'' ! i \<and>
           to_rgba cmap (Min (set (dd_get a key))) (Max (set (dd_get a key)))
              (dd_get a key ! i) = Inr (markerfacecolor (markers fig ! i))"
proof -
  from assms obtain lo hi ms where
    lo: "py_min (dd_get a key) = Inr lo" and hi: "py_max (dd_get a key) = Inr hi" and
    pp: "plot_points cmap lo hi (dd_get a ''x'') (dd_get a ''y'') (dd_get a key)
           [0..<length (dd_get a ''x'')] = Inr ms" and
    ms: "markers fig = ms"
    by (auto simp: plot_def split: sum.splits)
  from lo have ne: "dd_get a key \<noteq> []" by auto
  from lo hi have lohi: "lo = Min (set (dd_get a key))" "hi = Max (set (dd_get a key))"
    by (simp_all add: py_min_eq [OF ne] py_max_eq [OF ne])
  from plot_points_Inr [OF pp] show "length (markers fig) = length (dd_get a ''x'')"
    by (simp add: ms)
  from plot_points_Inr [OF pp] show "\<forall>i < length (dd_get a ''x'').
           marker_x (markers fig ! i) = dd_get a ''x'' ! i \<and>
           marker_y (markers fig ! i) = dd_get a ''y'' ! i \<and>
           to_rgba cmap (Min (set (dd_get a key))) (Max (set (dd_get a key)))
              (dd_get a key ! i) = Inr (markerfacecolor (markers fig ! i))"
    by (simp add: ms lohi)
qed

text \<open>An exception of the fit leaves \<^verbatim>\<open>_plot\<close> as it is; nothing is caught.\<close>

lemma plot_fit_error:
  "Rbf (dd_get a ''x'') (dd_get a ''y'') (dd_get a key) = Inl e \<Longrightarrow>
     plot Rbf cmap g a key ttl gxs gys nx ny = Inl e"
  by (simp add: plot_def)

text \<open>When the fit and the reshape succeed and the columns are aligned, the figure is completed.\<close>

lemma Normalize_total:
  "lo \<le> hi \<Longrightarrow>
   Normalize lo hi v = Inr (if lo = hi then 0 else (min hi (max v lo) - lo) / (hi - lo))"
  by (simp add: Normalize_def)

lemma plot_points_total:
  assumes "\<forall>i \<in> set idxs. i < length xs \<and> i < length ys \<and> i < length vs" and "lo \<le> hi"
  shows "\<exists>ms. plot_points cmap lo hi xs ys vs idxs = Inr ms"
  using assms(1)
proof (induction idxs)
  case Nil
  show ?case by simp
next
  case (Cons idx idxs)
  then obtain ms where "plot_points cmap lo hi xs ys vs idxs = Inr ms" by auto
  then show ?case
    using Cons.prems assms(2) by (simp add: to_rgba_def Normalize_total)
qed

lemma plot_total:
  assumes "Rbf (dd_get a ''x'') (dd_get a ''y'') (dd_get a key) = Inr interp"
    and "reshape ny nx (map2 interp gxs gys) = Inr z"
    and "dd_get a key \<noteq> []"
    and "length (dd_get a ''y'') = length (dd_get a ''x'')"
    and "length (dd_get a key) = length (dd_get a ''x'')"
  shows "\<exists>fig. plot Rbf cmap g a key ttl gxs gys nx ny = Inr fig"
proof -
  let ?col = "dd_get a key"
  have lohi: "Min (set ?col) \<le> Max (set ?col)"
    using assms(3) by (simp add: Min_le_iff)
  have "\<forall>i \<in> set [0..<length (dd_get a ''x'')].
          i < length (dd_get a ''x'') \<and> i < length (dd_get a ''y'') \<and> i < length ?col"
    using assms(4,5) by simp
  from plot_points_total [OF this lohi]
  obtain ms where "plot_points cmap (Min (set ?col)) (Max (set ?col)) (dd_get a ''x'')
      (dd_get a ''y'') ?col [0..<length (dd_get a ''x'')] = Inr ms"
    by blast
  then show ?thesis
    using assms(1,2) by (simp add: plot_def py_min_eq [OF assms(3)] py_max_eq [OF assms(3)])
qed

text \<open>The column of a metric in the padded table.\<close>

lemma metric_column:
  assumes "data g \<noteq> []" and "aggregate g = Inr a" and "key \<in> fst ` set metrics"
  shows "dd_get a key = map (metric_value key) (data g)
           @ replicate 4 (Min (set (map (metric_value key) (data g))))"
    and "length (dd_get a ''x'') = length (data g) + 4"
    and "length (dd_get a ''y'') = length (data g) + 4"
proof -
  have a: "a = columns
      (map row_x (data g) @ [0, 0, of_int (image_width g), of_int (image_width g)])
      (map row_y (data g) @ [0, of_int (image_height g), 0, of_int (image_height g)])
      (map iwconfig_stats_level (data g)
         @ replicate 4 (Min (set (map iwconfig_stats_level (data g)))))
      (map iwconfig_stats_quality (data g)
         @ replicate 4 (Min (set (map iwconfig_stats_quality (data g)))))
      (map tcp_sent_Mbps (data g) @ replicate 4 (Min (set (map tcp_sent_Mbps (data g)))))
      (map tcp_reverse_received_Mbps (data g)
         @ replicate 4 (Min (set (map tcp_reverse_received_Mbps (data g)))))
      (map udp_Mbps (data g) @ replicate 4 (Min (set (map udp_Mbps (data g)))))
      (map udp_jitter_ms (data g) @ replicate 4 (Min (set (map udp_jitter_ms (data g)))))"
    using aggregate_nonempty [OF assms(1)] assms(2) by simp
  have mv: "metric_value ''rssi'' = iwconfig_stats_level"
    "metric_value ''quality'' = iwconfig_stats_quality"
    "metric_value ''tcp_upload_Mbps'' = tcp_sent_Mbps"
    "metric_value ''tcp_download_Mbps'' = tcp_reverse_received_Mbps"
    "metric_value ''udp_Mbps'' = udp_Mbps"
    "metric_value ''jitter'' = udp_jitter_ms"
    by (rule ext, simp add: metric_value_def)+
  have k: "key = ''rssi'' \<or> key = ''quality'' \<or> key = ''tcp_upload_Mbps''
      \<or> key = ''tcp_download_Mbps'' \<or> key = ''udp_Mbps'' \<or> key = ''jitter''"
    using assms(3) unfolding metrics_def by simp
  have c: "dd_get a ''rssi'' = map (metric_value ''rssi'') (data g)
           @ replicate 4 (Min (set (map (metric_value ''rssi'') (data g))))"
    "dd_get a ''quality'' = map (metric_value ''quality'') (data g)
           @ replicate 4 (Min (set (map (metric_value ''quality'') (data g))))"
    "dd_get a ''tcp_upload_Mbps'' = map (metric_value ''tcp_upload_Mbps'') (data g)
           @ replicate 4 (Min (set (map (metric_value ''tcp_upload_Mbps'') (data g))))"
    "dd_get a ''tcp_download_Mbps'' = map (metric_value ''tcp_download_Mbps'') (data g)
           @ replicate 4 (Min (set (map (metric_value ''tcp_download_Mbps'') (data g))))"
    "dd_get a ''udp_Mbps'' = map (metric_value ''udp_Mbps'') (data g)
           @ replicate 4 (Min (set (map (metric_value ''udp_Mbps'') (data g))))"
    "dd_get a ''jitter'' = map (metric_value ''jitter'') (data g)
           @ replicate 4 (Min (set (map (metric_value ''jitter'') (data g))))"
    unfolding mv by (simp_all add: a columns_def dd_get_def)
  show "dd_get a key = map (metric_value key) (data g)
           @ replicate 4 (Min (set (map (metric_value key) (data g))))"
    using k by (elim disjE) (simp_all only: c)
  show "length (dd_get a ''x'') = length (data g) + 4"
    by (simp add: a columns_def dd_get_def)
  show "length (dd_get a ''y'') = length (data g) + 4"
    by (simp add: a columns_def dd_get_def)
qed

subsection \<open>The example survey\<close>

lemma survey_table_eq: "aggregate (survey [] [point_a, point_b]) = Inr survey_table"
  using aggregate_nonempty [of "survey [] [point_a, point_b]"]
  by (simp add: survey_def point_a_def point_b_def replicate_4 columns_def survey_table_def)

lemma survey_grid_eq: "make_grid 16 8 = Inr survey_grid"
  by code_simp



lemma single_table_eq: "aggregate (survey [] [point_a]) = Inr single_table"
  using aggregate_nonempty [of "survey [] [point_a]"]
  by (simp add: survey_def point_a_def replicate_4 columns_def single_table_def)

lemma single_figure_eq:
  "plot flat_rbf id (survey [] [point_a]) single_table ''rssi''
     ''survey - RSSI (level)'' (gx survey_grid) (gy survey_grid)
     (num_x survey_grid) (num_y survey_grid) = Inr single_figure"
  by (simp add: plot_def flat_rbf_def single_table_def survey_grid_def dd_get_def reshape_def
        survey_def to_rgba_def Normalize_def upt_rec numeral_eq_Suc single_figure_def)

lemma survey_figure_eq:
  "plot flat_rbf id (survey [] [point_a, point_b]) survey_table ''rssi''
     ''survey - RSSI (level)'' (gx survey_grid) (gy survey_grid)
     (num_x survey_grid) (num_y survey_grid) = Inr survey_figure"
  by (simp add: plot_def flat_rbf_def survey_table_def survey_grid_def dd_get_def reshape_def
        survey_def to_rgba_def Normalize_def upt_rec numeral_eq_Suc survey_figure_def)

subsection \<open>The grid\<close>

lemma py_int_nonneg: "0 \<le> q \<Longrightarrow> py_int q = \<lfloor>q\<rfloor>"
  by (simp add: py_int_def)







section \<open>The claims\<close>

subsection \<open>C1: the channel summary always ends the run\<close>

text \<open>
  C1. For every dataset \<^verbatim>\<open>_plot_channels\<close> computes the mean per frequency, prints it and
  raises \<^verbatim>\<open>NotImplementedError\<close>: the division in the mean never fails, since a bucket
  exists only once a quality has been appended to it. The aggregation before it never
  fails either, so every run of \<^verbatim>\<open>generate\<close> prints the channel means, writes no figure
  and ends with \<^verbatim>\<open>NotImplementedError\<close>.
\<close>

theorem plot_channels_always_raises:
  "\<exists>ch. channel_means (channel_buckets (ignore_ssids g) (data g)) = Inr ch
      \<and> plot_channels g = ([ch], Inl NotImplementedError)
      \<and> generate Rbf cmap g = ([ch], [], Inl NotImplementedError)"
  by (simp add: channel_means_buckets plot_channels_eq generate_eq)

theorem plot_channels_always_raises_witness:
  "plot_channels (survey [] [point_a, point_b]) = ([[(2412, 60)]], Inl NotImplementedError)
   \<and> generate flat_rbf (id :: rat \<Rightarrow> rat) (survey [] [point_a, point_b])
       = ([[(2412, 60)]], [], Inl NotImplementedError)"
  using plot_channels_always_raises [of "survey [] [point_a, point_b]" flat_rbf id]
  by (auto simp: survey_def point_a_def point_b_def channel_buckets_def py_truediv_def)

subsection \<open>C2: the corner padding\<close>

text \<open>
  C2. For a dataset with at least one point the table handed to the plots has, after the
  real points, exactly four more entries in every column: the coordinates \<open>(0, 0)\<close>,
  \<open>(0, height)\<close>, \<open>(width, 0)\<close>, \<open>(width, height)\<close>, and for every metric four times
  the minimum of the real values of that metric. The minimum taken for the second to
  fourth corner runs over a column that already holds padding, and is the same.
\<close>

theorem corner_padding_is_minimum:
  assumes "data g \<noteq> []"
  shows "aggregate g = Inr
     [(''x'', map row_x (data g) @ [0, 0, of_int (image_width g), of_int (image_width g)]),
      (''y'', map row_y (data g) @ [0, of_int (image_height g), 0, of_int (image_height g)]),
      (''rssi'', map iwconfig_stats_level (data g)
         @ replicate 4 (Min (set (map iwconfig_stats_level (data g))))),
      (''quality'', map iwconfig_stats_quality (data g)
         @ replicate 4 (Min (set (map iwconfig_stats_quality (data g))))),
      (''tcp_upload_Mbps'', map tcp_sent_Mbps (data g)
         @ replicate 4 (Min (set (map tcp_sent_Mbps (data g))))),
      (''tcp_download_Mbps'', map tcp_reverse_received_Mbps (data g)
         @ replicate 4 (Min (set (map tcp_reverse_received_Mbps (data g))))),
      (''udp_Mbps'', map udp_Mbps (data g) @ replicate 4 (Min (set (map udp_Mbps (data g))))),
      (''jitter'', map udp_jitter_ms (data g)
         @ replicate 4 (Min (set (map udp_jitter_ms (data g)))))]"
  using aggregate_nonempty [OF assms] by (simp only: columns_def)

theorem corner_padding_is_minimum_witness:
  "data (survey [] [point_a, point_b]) \<noteq> []
   \<and> aggregate (survey [] [point_a, point_b]) = Inr
     [(''x'', [1, 3, 0, 0, 16, 16]),
      (''y'', [2, 1, 0, 8, 0, 8]),
      (''rssi'', [- 50, - 70, - 70, - 70, - 70, - 70]),
      (''quality'', [60, 40, 40, 40, 40, 40]),
      (''tcp_upload_Mbps'', [10, 12, 10, 10, 10, 10]),
      (''tcp_download_Mbps'', [20, 18, 18, 18, 18, 18]),
      (''udp_Mbps'', [5, 6, 5, 5, 5, 5]),
      (''jitter'', [1 / 2, 1 / 4, 1 / 4, 1 / 4, 1 / 4, 1 / 4])]"
  using corner_padding_is_minimum [of "survey [] [point_a, point_b]"]
  by (simp add: survey_def point_a_def point_b_def replicate_4)

subsection \<open>C3: the sample markers\<close>

text \<open>
  C3, as claimed: one marker per real measurement point and none for the four padding
  points. The loop of \<^verbatim>\<open>_plot\<close> runs over every index of \<^verbatim>\<open>a['x']\<close>, which holds the
  corners as well: the survey of two points gets six markers, four of them on the
  corners of the plan.
\<close>

theorem markers_counterexample:
  "aggregate (survey [] [point_a, point_b]) = Inr survey_table
   \<and> make_grid 16 8 = Inr survey_grid
   \<and> map_sum id markers
       (plot flat_rbf id (survey [] [point_a, point_b]) survey_table ''rssi''
          ''survey - RSSI (level)'' (gx survey_grid) (gy survey_grid)
          (num_x survey_grid) (num_y survey_grid))
     = Inr [\<lparr>marker_x = 1, marker_y = 2, markerfacecolor = 1\<rparr>,
            \<lparr>marker_x = 3, marker_y = 1, markerfacecolor = 0\<rparr>,
            \<lparr>marker_x = 0, marker_y = 0, markerfacecolor = 0\<rparr>,
            \<lparr>marker_x = 0, marker_y = 8, markerfacecolor = 0\<rparr>,
            \<lparr>marker_x = 16, marker_y = 0, markerfacecolor = 0\<rparr>,
            \<lparr>marker_x = 16, marker_y = 8, markerfacecolor = 0\<rparr>]
   \<and> length (data (survey [] [point_a, point_b])) = 2"
  by (simp add: survey_table_eq survey_grid_eq survey_figure_eq)
     (simp add: survey_figure_def survey_def)

text \<open>
  C3, amended. A figure that \<^verbatim>\<open>_plot\<close> completes for a non-empty dataset has exactly one
  marker per entry of the padded table: one for each real measurement point, in order,
  followed by one on each of the four corners. Every marker sits at the coordinates of
  its entry, and its colour is the colour mapper applied to the entry's own value in the
  column of the metric (the measured value of a real point, the padding minimum of a
  corner), never a value of the interpolated field.
\<close>

theorem markers_include_corner_padding:
  assumes "data g \<noteq> []"
    and "aggregate g = Inr a"
    and "plot Rbf cmap g a key ttl gxs gys nx ny = Inr fig"
  shows "map (\<lambda>m. (marker_x m, marker_y m)) (markers fig) =
           map (\<lambda>r. (row_x r, row_y r)) (data g)
             @ [(0, 0), (0, of_int (image_height g)),
                (of_int (image_width g), 0), (of_int (image_width g), of_int (image_height g))]
         \<and> (\<forall>i < length (data g) + 4.
              to_rgba cmap (Min (set (dd_get a key))) (Max (set (dd_get a key)))
                (dd_get a key ! i) = Inr (markerfacecolor (markers fig ! i)))"
proof -
  let ?xs = "map row_x (data g) @ [0, 0, of_int (image_width g), of_int (image_width g)]"
  let ?ys = "map row_y (data g) @ [0, of_int (image_height g), 0, of_int (image_height g)]"
  have ax: "dd_get a ''x'' = ?xs" and ay: "dd_get a ''y'' = ?ys"
    using aggregate_nonempty [OF assms(1)] assms(2) by (auto simp: columns_def dd_get_def)
  note pm = plot_markers [OF assms(3)]
  have len: "length (markers fig) = length (data g) + 4"
    using pm(1) by (simp add: ax)
  have "map (\<lambda>m. (marker_x m, marker_y m)) (markers fig) = zip ?xs ?ys"
  proof (rule nth_equalityI)
    show "length (map (\<lambda>m. (marker_x m, marker_y m)) (markers fig)) = length (zip ?xs ?ys)"
      by (simp add: len)
  next
    fix i assume "i < length (map (\<lambda>m. (marker_x m, marker_y m)) (markers fig))"
    then have i: "i < length (data g) + 4" by (simp add: len)
    then have m: "marker_x (markers fig ! i) = ?xs ! i \<and> marker_y (markers fig ! i) = ?ys ! i"
      using pm(2) by (simp add: ax ay)
    have z: "zip ?xs ?ys ! i = (?xs ! i, ?ys ! i)"
      by (rule nth_zip) (use i in simp_all)
    have "map (\<lambda>m. (marker_x m, marker_y m)) (markers fig) ! i
            = (marker_x (markers fig ! i), marker_y (markers fig ! i))"
      using i by (simp add: len)
    then show "map (\<lambda>m. (marker_x m, marker_y m)) (markers fig) ! i = zip ?xs ?ys ! i"
      by (simp only: m z)
  qed
  also have "zip ?xs ?ys = map (\<lambda>r. (row_x r, row_y r)) (data g)
             @ [(0, 0), (0, of_int (image_height g)),
                (of_int (image_width g), 0), (of_int (image_width g), of_int (image_height g))]"
    by (simp add: zip_map_map zip_same_conv_map)
  finally show ?thesis
    using pm(2) by (simp add: ax)
qed

theorem markers_include_corner_padding_witness:
  "data (survey [] [point_a, point_b]) \<noteq> []
   \<and> aggregate (survey [] [point_a, point_b]) = Inr survey_table
   \<and> plot flat_rbf id (survey [] [point_a, point_b]) survey_table ''rssi''
        ''survey - RSSI (level)'' (gx survey_grid) (gy survey_grid)
        (num_x survey_grid) (num_y survey_grid) = Inr survey_figure
   \<and> map (\<lambda>m. (marker_x m, marker_y m)) (markers survey_figure)
        = [(1, 2), (3, 1), (0, 0), (0, 8), (16, 0), (16, 8)]
   \<and> to_rgba id (- 70) (- 50) (- 50) = Inr (markerfacecolor (markers survey_figure ! 0))
   \<and> to_rgba id (- 70) (- 50) (- 70) = Inr (markerfacecolor (markers survey_figure ! 5))"
  using markers_include_corner_padding
          [OF _ survey_table_eq survey_figure_eq]
  by (simp add: survey_table_eq survey_figure_eq)
     (simp add: survey_def point_a_def point_b_def survey_table_def dd_get_def
        survey_figure_def to_rgba_def Normalize_def)

subsection \<open>C4: the height of the coordinate space\<close>

text \<open>
  C4. The claim is that the height used for the corners, the grid and the extent is the
  number of pixel rows of the image, as the width is the number of pixel columns. The
  constructor stores \<^verbatim>\<open>len(self._layout) - 1\<close>: for an image of 9 rows of 16 pixels the
  width is 16 and the height is 8, one less than the number of rows.
\<close>

theorem image_height_is_rows_minus_one:
  "map_sum id image_width
      (init (replicate 9 (replicate 16 (0::nat))) [] ''plan.png'' ''survey'' []) = Inr 16
   \<and> map_sum id image_height
      (init (replicate 9 (replicate 16 (0::nat))) [] ''plan.png'' ''survey'' []) = Inr 8
   \<and> length (replicate 9 (replicate 16 (0::nat))) = 9"
  by (simp add: init_def numeral_eq_Suc)

subsection \<open>C5: a metric without variance\<close>

text \<open>
  C5, as claimed: when the minimum of a metric's values equals the maximum, every value
  is normalised to \<open>1/2\<close>. In the survey with one point every padded column is constant;
  \<^verbatim>\<open>_plot\<close> completes the RSSI figure without a division error, but each of its five
  markers has the intensity \<open>0\<close> (the palette of the example is the identity, so the
  colour of a marker is its intensity): \<^verbatim>\<open>Normalize\<close> returns \<open>0\<close> for \<open>vmin = vmax\<close>.
\<close>

theorem zero_variance_counterexample:
  "aggregate (survey [] [point_a]) = Inr single_table
   \<and> dd_get single_table ''rssi'' = [- 50, - 50, - 50, - 50, - 50]
   \<and> map_sum id markers
       (plot flat_rbf id (survey [] [point_a]) single_table ''rssi''
          ''survey - RSSI (level)'' (gx survey_grid) (gy survey_grid)
          (num_x survey_grid) (num_y survey_grid))
     = Inr [\<lparr>marker_x = 1, marker_y = 2, markerfacecolor = 0\<rparr>,
            \<lparr>marker_x = 0, marker_y = 0, markerfacecolor = 0\<rparr>,
            \<lparr>marker_x = 0, marker_y = 8, markerfacecolor = 0\<rparr>,
            \<lparr>marker_x = 16, marker_y = 0, markerfacecolor = 0\<rparr>,
            \<lparr>marker_x = 16, marker_y = 8, markerfacecolor = 0\<rparr>]
   \<and> to_rgba id (- 50) (- 50) (- 50) = Inr (0 :: rat)
   \<and> to_rgba id (- 50) (- 50) (- 50) \<noteq> Inr (1 / 2 :: rat)"
  by (simp add: single_table_eq single_figure_eq)
     (simp add: single_figure_def single_table_def dd_get_def to_rgba_def Normalize_def)

text \<open>
  C5, amended. When the column of a metric in the padded table has its minimum equal to
  its maximum, the normalisation in \<^verbatim>\<open>_plot\<close> raises nothing: if the fit and the reshape
  of the field succeed, the figure is completed, with one marker per entry of the table,
  and every marker has the colour of the intensity \<open>0\<close>; the colour mapper that \<^verbatim>\<open>_plot\<close>
  builds maps every value to that colour.
\<close>

theorem zero_variance_maps_to_zero:
  assumes "data g \<noteq> []" and "aggregate g = Inr a" and "key \<in> fst ` set metrics"
    and "Rbf (dd_get a ''x'') (dd_get a ''y'') (dd_get a key) = Inr interp"
    and "reshape ny nx (map2 interp gxs gys) = Inr z"
    and "Min (set (dd_get a key)) = Max (set (dd_get a key))"
  shows "\<exists>fig. plot Rbf cmap g a key ttl gxs gys nx ny = Inr fig
      \<and> length (markers fig) = length (data g) + 4
      \<and> (\<forall>i < length (data g) + 4. markerfacecolor (markers fig ! i) = cmap 0)
      \<and> (\<forall>v. to_rgba cmap (Min (set (dd_get a key))) (Max (set (dd_get a key))) v
               = Inr (cmap 0))"
proof -
  let ?col = "dd_get a key"
  note mc = metric_column [OF assms(1,2,3)]
  have len: "length ?col = length (data g) + 4" by (subst mc(1)) simp
  have ne: "?col \<noteq> []" using len by auto
  from plot_total [where Rbf = Rbf and a = a and key = key and interp = interp
                     and g = g and cmap = cmap and ttl = ttl, OF assms(4,5) ne]
       mc(2,3) len
  obtain fig where fig: "plot Rbf cmap g a key ttl gxs gys nx ny = Inr fig" by auto
  note pm = plot_markers [OF fig]
  have all: "to_rgba cmap (Min (set ?col)) (Max (set ?col)) v = Inr (cmap 0)" for v
    using assms(6) by (simp add: to_rgba_def Normalize_def)
  have "markerfacecolor (markers fig ! i) = cmap 0" if "i < length (data g) + 4" for i
  proof -
    from that pm(2) mc(2)
    have "to_rgba cmap (Min (set ?col)) (Max (set ?col)) (?col ! i)
            = Inr (markerfacecolor (markers fig ! i))" by simp
    then show ?thesis by (simp only: all sum.inject)
  qed
  then show ?thesis using fig pm(1) mc(2) all by auto
qed

theorem zero_variance_maps_to_zero_witness:
  "data (survey [] [point_a]) \<noteq> []
   \<and> aggregate (survey [] [point_a]) = Inr single_table
   \<and> ''rssi'' \<in> fst ` set metrics
   \<and> Min (set (dd_get single_table ''rssi'')) = Max (set (dd_get single_table ''rssi''))
   \<and> plot flat_rbf id (survey [] [point_a]) single_table ''rssi''
        ''survey - RSSI (level)'' (gx survey_grid) (gy survey_grid)
        (num_x survey_grid) (num_y survey_grid) = Inr single_figure
   \<and> map markerfacecolor (markers single_figure) = [0, 0, 0, 0, 0]
   \<and> to_rgba id (- 50) (- 50) 7 = Inr (0 :: rat)"
proof -
  have r: "reshape (num_y survey_grid) (num_x survey_grid)
             (map2 (\<lambda>x y. 0 :: rat) (gx survey_grid) (gy survey_grid))
           = Inr [[0, 0, 0, 0], [0, 0, 0, 0]]"
    by (simp add: survey_grid_def reshape_def numeral_eq_Suc)
  have f: "flat_rbf (dd_get single_table ''x'') (dd_get single_table ''y'')
             (dd_get single_table ''rssi'') = Inr (\<lambda>x y. 0)"
    by (simp add: flat_rbf_def)
  have d: "data (survey [] [point_a]) \<noteq> []" by (simp add: survey_def)
  have k: "''rssi'' \<in> fst ` set metrics" by (simp add: metrics_def)
  have m: "Min (set (dd_get single_table ''rssi'')) = Max (set (dd_get single_table ''rssi''))"
    by (simp add: single_table_def dd_get_def)
  from zero_variance_maps_to_zero
         [where Rbf = flat_rbf and interp = "\<lambda>x y. 0" and cmap = id
            and ttl = "''survey - RSSI (level)''", OF d single_table_eq k f r m]
  show ?thesis
    by (simp add: d k m single_table_eq single_figure_eq)
       (simp add: single_figure_def single_table_def dd_get_def to_rgba_def Normalize_def)
qed

subsection \<open>C6: the empty dataset\<close>

text \<open>
  C6, as claimed: with no measurement point the aggregation fails. It does not: no
  metric column exists, so the padding loop finds only the keys \<^verbatim>\<open>'x'\<close> and \<^verbatim>\<open>'y'\<close>,
  skips both and never calls \<^verbatim>\<open>min\<close>.
\<close>

theorem empty_dataset_counterexample:
  "aggregate (survey [] []) = Inr [(''x'', [0, 0, 16, 16]), (''y'', [0, 8, 0, 8])]"
  by (simp add: aggregate_def survey_def)

text \<open>
  C6, amended. With no measurement point the aggregation succeeds with a table that holds
  the four corner coordinates and no metric column; the run then prints an empty channel
  summary and ends with the \<^verbatim>\<open>NotImplementedError\<close> of \<^verbatim>\<open>_plot_channels\<close>.
\<close>

theorem empty_dataset_is_padded:
  assumes "data g = []"
  shows "aggregate g =
          Inr [(''x'', [0, 0, of_int (image_width g), of_int (image_width g)]),
               (''y'', [0, of_int (image_height g), 0, of_int (image_height g)])]
       \<and> generate Rbf cmap g = ([[]], [], Inl NotImplementedError)"
  using assms by (simp add: aggregate_empty generate_eq channel_buckets_def)

theorem empty_dataset_is_padded_witness:
  "data (survey [] []) = []
   \<and> aggregate (survey [] []) = Inr [(''x'', [0, 0, 16, 16]), (''y'', [0, 8, 0, 8])]
   \<and> generate flat_rbf (id :: rat \<Rightarrow> rat) (survey [] [])
       = ([[]], [], Inl NotImplementedError)"
  using empty_dataset_is_padded [of "survey [] []" flat_rbf id]
  by (simp add: survey_def)

subsection \<open>C7: the grid\<close>





subsection \<open>C8: the channel aggregate\<close>

text \<open>
  C8. The mapping that \<^verbatim>\<open>_plot_channels\<close> prints has one entry for each frequency seen in
  a scan that is not excluded, and no other; the value at the frequency of such a scan is
  the arithmetic mean of the qualities of all scans of the dataset that are not excluded
  and have that frequency. (The key is the frequency divided by \<^verbatim>\<open>1000000\<close>.)
\<close>

theorem channel_aggregate_is_mean:
  "\<exists>ch. fst (plot_channels g) = [ch]
     \<and> distinct (map fst ch)
     \<and> fst ` set ch = bucket_key ` set (observations (ignore_ssids g) (data g))
     \<and> (\<forall>s \<in> set (observations (ignore_ssids g) (data g)).
           map_of ch (bucket_key s) =
             Some (mean (map stats_quality
                     (filter (\<lambda>t. Frequency t = Frequency s)
                        (observations (ignore_ssids g) (data g))))))"
proof -
  let ?obs = "observations (ignore_ssids g) (data g)"
  let ?b = "channel_buckets (ignore_ssids g) (data g)"
  let ?ch = "map (\<lambda>(f, qs). (f, mean qs)) ?b"
  have keys: "fst ` set ?b = bucket_key ` set ?obs"
    by (simp add: channel_buckets_flat buckets_keys)
  have 1: "fst (plot_channels g) = [?ch]" by (simp add: plot_channels_eq)
  have fsts: "map fst (map (\<lambda>(f, qs). (f, mean qs)) b) = map fst b"
    for b :: "(rat \<times> rat list) list"
    by (induction b) auto
  have "distinct (map fst ?b)"
    unfolding channel_buckets_flat by (rule buckets_distinct) simp
  then have 2: "distinct (map fst ?ch)"
    by (simp only: fsts)
  have 3: "fst ` set ?ch = bucket_key ` set ?obs"
    using keys by (force simp: image_iff)
  have 4: "map_of ?ch (bucket_key s) =
             Some (mean (map stats_quality (filter (\<lambda>t. Frequency t = Frequency s) ?obs)))"
    if "s \<in> set ?obs" for s
  proof -
    have same: "(bucket_key t = bucket_key s) = (Frequency t = Frequency s)" for t
      by (simp add: bucket_key_def)
    have "bucket_key s \<in> fst ` set ?b" using that keys by blast
    then have m: "map_of ?b (bucket_key s) = Some (dd_get ?b (bucket_key s))"
      by (rule map_of_dd_get)
    have "dd_get ?b (bucket_key s) =
            map stats_quality (filter (\<lambda>t. Frequency t = Frequency s) ?obs)"
      unfolding channel_buckets_flat buckets_get by (simp add: same dd_get_def)
    with m show ?thesis
      by (simp add: map_of_means)
  qed
  show ?thesis using 1 2 3 4 by blast
qed

text \<open>
  The example of the specification: qualities 50 and 70 on 2412 MHz average to 60;
  excluding the network of one point leaves the quality of the other.
\<close>

theorem channel_aggregate_is_mean_witness:
  "(\<exists>ch. fst (plot_channels (survey [] [point_a, point_b])) = [ch]
       \<and> map_of ch 2412 = Some 60)
   \<and> (\<exists>ch. fst (plot_channels (survey [''home''] [point_a, point_b])) = [ch]
       \<and> map_of ch 2412 = Some 70)
   \<and> (\<exists>ch. fst (plot_channels (survey [''guest''] [point_a, point_b])) = [ch]
       \<and> map_of ch 2412 = Some 50)"
  using channel_aggregate_is_mean [of "survey [] [point_a, point_b]"]
        channel_aggregate_is_mean [of "survey [''home''] [point_a, point_b]"]
        channel_aggregate_is_mean [of "survey [''guest''] [point_a, point_b]"]
  by (auto simp: survey_simps point_a_def point_b_def observations_def bucket_key_def mean_def)

subsection \<open>C9: the normalisation of colours\<close>

text \<open>
  C9. For a metric of the catalogue and a non-empty dataset, the column that \<^verbatim>\<open>_plot\<close>
  reads is the measured values followed by four copies of their minimum, and \<^verbatim>\<open>_plot\<close>
  takes \<open>vmin\<close> and \<open>vmax\<close> from that padded column. When they differ and the fit and the
  reshape succeed, the figure is completed and the marker of every entry has the colour
  of the intensity \<open>(value - vmin) / (vmax - vmin)\<close>, which lies in \<open>[0, 1]\<close>: \<open>0\<close> for an
  entry equal to the minimum and \<open>1\<close> for an entry equal to the maximum. The colour mapper
  built by \<^verbatim>\<open>_plot\<close> clips: a value below \<open>vmin\<close> gets the colour of \<open>0\<close> and a value above
  \<open>vmax\<close> the colour of \<open>1\<close>.
\<close>

theorem normalization_is_min_max_scaling:
  assumes "data g \<noteq> []" and "aggregate g = Inr a" and "key \<in> fst ` set metrics"
    and "Rbf (dd_get a ''x'') (dd_get a ''y'') (dd_get a key) = Inr interp"
    and "reshape ny nx (map2 interp gxs gys) = Inr z"
    and "Min (set (dd_get a key)) \<noteq> Max (set (dd_get a key))"
  shows "\<exists>fig lo hi. plot Rbf cmap g a key ttl gxs gys nx ny = Inr fig
      \<and> dd_get a key = map (metric_value key) (data g)
            @ replicate 4 (Min (set (map (metric_value key) (data g))))
      \<and> lo = Min (set (dd_get a key)) \<and> hi = Max (set (dd_get a key)) \<and> lo < hi
      \<and> length (markers fig) = length (dd_get a key)
      \<and> (\<forall>i < length (dd_get a key).
            markerfacecolor (markers fig ! i) = cmap ((dd_get a key ! i - lo) / (hi - lo))
            \<and> 0 \<le> (dd_get a key ! i - lo) / (hi - lo)
            \<and> (dd_get a key ! i - lo) / (hi - lo) \<le> 1)
      \<and> (\<forall>i < length (dd_get a key).
            dd_get a key ! i = lo \<longrightarrow> markerfacecolor (markers fig ! i) = cmap 0)
      \<and> (\<forall>i < length (dd_get a key).
            dd_get a key ! i = hi \<longrightarrow> markerfacecolor (markers fig ! i) = cmap 1)
      \<and> (\<forall>v. to_rgba cmap lo hi v =
               Inr (cmap (if v < lo then 0 else if hi < v then 1 else (v - lo) / (hi - lo))))"
proof -
  let ?col = "dd_get a key"
  let ?lo = "Min (set ?col)" and ?hi = "Max (set ?col)"
  note mc = metric_column [OF assms(1,2,3)]
  have len: "length ?col = length (data g) + 4" by (subst mc(1)) simp
  have ne: "?col \<noteq> []" using len by auto
  have "?lo \<le> ?hi" using ne by (simp add: Min_le_iff)
  with assms(6) have lt: "?lo < ?hi" by simp
  from plot_total [where Rbf = Rbf and a = a and key = key and interp = interp
                     and g = g and cmap = cmap and ttl = ttl, OF assms(4,5) ne]
       mc(2,3) len
  obtain fig where fig: "plot Rbf cmap g a key ttl gxs gys nx ny = Inr fig" by auto
  note pm = plot_markers [OF fig]
  have lenm: "length (markers fig) = length ?col" using pm(1) mc(2) len by simp
  have rgba: "to_rgba cmap ?lo ?hi v =
               Inr (cmap (if v < ?lo then 0 else if ?hi < v then 1 else (v - ?lo) / (?hi - ?lo)))"
    for v
    using lt by (simp add: to_rgba_def Normalize_scaled)
  have pt: "markerfacecolor (markers fig ! i) = cmap ((?col ! i - ?lo) / (?hi - ?lo))
            \<and> 0 \<le> (?col ! i - ?lo) / (?hi - ?lo) \<and> (?col ! i - ?lo) / (?hi - ?lo) \<le> 1"
    if i: "i < length ?col" for i
  proof -
    have mem: "?col ! i \<in> set ?col" using i by simp
    have lo: "?lo \<le> ?col ! i" using mem by simp
    have hi: "?col ! i \<le> ?hi" using mem by simp
    from i pm(2) mc(2) len
    have "to_rgba cmap ?lo ?hi (?col ! i) = Inr (markerfacecolor (markers fig ! i))" by simp
    then have "markerfacecolor (markers fig ! i) = cmap ((?col ! i - ?lo) / (?hi - ?lo))"
      using lo hi by (simp add: rgba)
    moreover have "0 \<le> (?col ! i - ?lo) / (?hi - ?lo)" using lo lt by simp
    moreover have "(?col ! i - ?lo) / (?hi - ?lo) \<le> 1" using hi lt by simp
    ultimately show ?thesis by simp
  qed
  have p0: "\<forall>i < length ?col. ?col ! i = ?lo \<longrightarrow> markerfacecolor (markers fig ! i) = cmap 0"
    using pt by simp
  have p1: "\<forall>i < length ?col. ?col ! i = ?hi \<longrightarrow> markerfacecolor (markers fig ! i) = cmap 1"
  proof (intro allI impI)
    fix i assume "i < length ?col" and "?col ! i = ?hi"
    with pt [of i] lt show "markerfacecolor (markers fig ! i) = cmap 1" by simp
  qed
  have pall: "\<forall>i < length ?col.
            markerfacecolor (markers fig ! i) = cmap ((?col ! i - ?lo) / (?hi - ?lo))
            \<and> 0 \<le> (?col ! i - ?lo) / (?hi - ?lo) \<and> (?col ! i - ?lo) / (?hi - ?lo) \<le> 1"
    using pt by blast
  have rall: "\<forall>v. to_rgba cmap ?lo ?hi v =
               Inr (cmap (if v < ?lo then 0 else if ?hi < v then 1 else (v - ?lo) / (?hi - ?lo)))"
    using rgba by blast
  show ?thesis
    by (intro exI [of _ fig] exI [of _ ?lo] exI [of _ ?hi] conjI refl)
       (fact fig mc(1) lt lenm pall p0 p1 rall)+
qed

text \<open>The RSSI figure of the example survey.\<close>

theorem normalization_is_min_max_scaling_witness:
  "data (survey [] [point_a, point_b]) \<noteq> []
   \<and> aggregate (survey [] [point_a, point_b]) = Inr survey_table
   \<and> ''rssi'' \<in> fst ` set metrics
   \<and> dd_get survey_table ''rssi'' = [- 50, - 70, - 70, - 70, - 70, - 70]
   \<and> plot flat_rbf id (survey [] [point_a, point_b]) survey_table ''rssi''
        ''survey - RSSI (level)'' (gx survey_grid) (gy survey_grid)
        (num_x survey_grid) (num_y survey_grid) = Inr survey_figure
   \<and> map markerfacecolor (markers survey_figure) = [1, 0, 0, 0, 0, 0]
   \<and> to_rgba id (- 70) (- 50) (- 55) = Inr (3 / 4 :: rat)
   \<and> to_rgba id (- 70) (- 50) (- 90) = Inr (0 :: rat)
   \<and> to_rgba id (- 70) (- 50) (- 30) = Inr (1 :: rat)"
proof -
  have r: "reshape (num_y survey_grid) (num_x survey_grid)
             (map2 (\<lambda>x y. 0 :: rat) (gx survey_grid) (gy survey_grid))
           = Inr [[0, 0, 0, 0], [0, 0, 0, 0]]"
    by (simp add: survey_grid_def reshape_def numeral_eq_Suc)
  have f: "flat_rbf (dd_get survey_table ''x'') (dd_get survey_table ''y'')
             (dd_get survey_table ''rssi'') = Inr (\<lambda>x y. 0)"
    by (simp add: flat_rbf_def)
  have d: "data (survey [] [point_a, point_b]) \<noteq> []" by (simp add: survey_def)
  have k: "''rssi'' \<in> fst ` set metrics" by (simp add: metrics_def)
  have m: "Min (set (dd_get survey_table ''rssi'')) \<noteq> Max (set (dd_get survey_table ''rssi''))"
    by (simp add: survey_table_def dd_get_def)
  from normalization_is_min_max_scaling
         [where Rbf = flat_rbf and interp = "\<lambda>x y. 0" and cmap = id
            and ttl = "''survey - RSSI (level)''", OF d survey_table_eq k f r m]
  show ?thesis
    by (simp add: d k survey_table_eq survey_figure_eq)
       (simp add: survey_figure_def survey_table_def dd_get_def to_rgba_def Normalize_def)
qed


end
